theory Spec2Isabelle
  imports Main "HOL-Library.AList"
begin

section \<open>Text: Python strings and the library calls on them\<close>

text \<open>
  A Python \<open>str\<close> is modelled as a \<open>string\<close>, one \<open>char\<close> per code point below 256.
  The functions of this section model the standard-library calls the two scripts make on
  URLs and paths: \<open>str.find\<close>, \<open>str.rfind\<close>, \<open>str.lower\<close>, \<open>str.rstrip\<close>,
  \<open>str.split\<close>, \<open>urllib.parse.urlparse(url).path\<close>, \<open>pathlib.Path(p).suffix\<close> and the
  join \<open>Path(a) / b\<close> (CPython 3.11). An exception of the library is a value of \<open>exn\<close>.
\<close>

datatype exn = AttributeError | ValueError

fun py_find :: "char \<Rightarrow> string \<Rightarrow> nat option" where
  "py_find c [] = None"
| "py_find c (x # xs) = (if x = c then Some 0 else map_option Suc (py_find c xs))"

definition py_find_from :: "char \<Rightarrow> nat \<Rightarrow> string \<Rightarrow> nat option" where
  \<comment> \<open>\<open>s.find(c, start)\<close> for \<open>start \<le> len(s)\<close>; \<open>None\<close> is Python's \<open>-1\<close>.\<close>
  "py_find_from c start s = map_option (\<lambda>i. i + start) (py_find c (drop start s))"

definition py_rfind :: "char \<Rightarrow> string \<Rightarrow> nat option" where
  "py_rfind c s = map_option (\<lambda>j. length s - Suc j) (py_find c (rev s))"

definition lower_char :: "char \<Rightarrow> char" where
  \<comment> \<open>\<open>str.lower\<close> on one code point below 256: \<open>A-Z\<close> and the Latin-1 capitals.\<close>
  "lower_char c =
     (let n = (of_char c :: nat)
      in if (65 \<le> n \<and> n \<le> 90) \<or> (192 \<le> n \<and> n \<le> 222 \<and> n \<noteq> 215)
         then char_of (n + 32) else c)"

definition py_lower :: "string \<Rightarrow> string" where
  "py_lower s = map lower_char s"

definition py_rstrip :: "char \<Rightarrow> string \<Rightarrow> string" where
  "py_rstrip c s = rev (dropWhile (\<lambda>x. x = c) (rev s))"

fun split_on :: "char \<Rightarrow> string \<Rightarrow> string list" where
  "split_on c [] = [[]]"
| "split_on c (x # xs) =
     (if x = c then [] # split_on c xs
      else (case split_on c xs of [] \<Rightarrow> [[x]] | p # ps \<Rightarrow> (x # p) # ps))"

fun join_with :: "char \<Rightarrow> string list \<Rightarrow> string" where
  "join_with c [] = []"
| "join_with c [p] = p"
| "join_with c (p # q # ps) = p @ c # join_with c (q # ps)"

subsection \<open>Bracketed hosts: \<open>_check_bracketed_host\<close> and \<open>ipaddress\<close>\<close>

definition is_digit :: "char \<Rightarrow> bool" where
  "is_digit c = (let n = (of_char c :: nat) in 48 \<le> n \<and> n \<le> 57)"

definition is_hex_digit :: "char \<Rightarrow> bool" where
  "is_hex_digit c =
     (let n = (of_char c :: nat)
      in (48 \<le> n \<and> n \<le> 57) \<or> (65 \<le> n \<and> n \<le> 70) \<or> (97 \<le> n \<and> n \<le> 102))"

definition decimal :: "string \<Rightarrow> nat" where
  "decimal s = fold (\<lambda>c n. 10 * n + (of_char c - 48)) s 0"

definition valid_octet :: "string \<Rightarrow> bool" where
  \<comment> \<open>\<open>_parse_octet\<close> does not raise: ASCII digits, at most three, no leading zero
      except in \<open>0\<close> itself, value at most 255.\<close>
  "valid_octet s =
     (case s of
        [] \<Rightarrow> False
      | c # cs \<Rightarrow>
          if list_all is_digit s \<and> length s \<le> 3
          then (if s = ''0'' then True else if c = CHR ''0'' then False else decimal s \<le> 255)
          else False)"

definition valid_ipv4 :: "string \<Rightarrow> bool" where
  \<comment> \<open>\<open>IPv4Address(s)\<close> does not raise.\<close>
  "valid_ipv4 s =
     (if CHR ''/'' \<in> set s then False
      else if s = [] then False
      else (let octets = split_on CHR ''.'' s
            in length octets = 4 \<and> list_all valid_octet octets))"

definition valid_hextet :: "string \<Rightarrow> bool" where
  \<comment> \<open>\<open>_parse_hextet\<close> does not raise.\<close>
  "valid_hextet h = (h \<noteq> [] \<and> list_all is_hex_digit h \<and> length h \<le> 4)"

definition ipv6_parts_ok :: "string list \<Rightarrow> bool" where
  \<comment> \<open>The part of \<open>IPv6Address._ip_int_from_string\<close> after an IPv4 suffix was replaced by
      its two hextets: at most nine parts, at most one empty part strictly inside (the
      \<open>::\<close>), and the parts that are copied are hextets.\<close>
  "ipv6_parts_ok parts =
     (if 9 < length parts then False
      else (case filter (\<lambda>i. parts ! i = []) [1 ..< length parts - 1] of
              [] \<Rightarrow> length parts = 8 \<and> list_all valid_hextet parts
            | [skip_index] \<Rightarrow>
                (let hi0 = skip_index;
                     lo0 = length parts - skip_index - 1;
                     hi = (if hd parts = [] then hi0 - 1 else hi0);
                     lo = (if last parts = [] then lo0 - 1 else lo0)
                 in if hd parts = [] \<and> hi \<noteq> 0 then False
                    else if last parts = [] \<and> lo \<noteq> 0 then False
                    else if 7 < hi + lo then False
                    else list_all valid_hextet (take hi parts)
                         \<and> list_all valid_hextet (drop (length parts - lo) parts))
            | _ \<Rightarrow> False))"

definition ipv6_body_ok :: "string \<Rightarrow> bool" where
  \<comment> \<open>\<open>IPv6Address._ip_int_from_string(ip_str)\<close> does not raise. The two hextets that
      stand for a valid IPv4 suffix are written \<open>0\<close> here: only their validity matters.\<close>
  "ipv6_body_ok ip_str =
     (if ip_str = [] then False
      else (let parts = split_on CHR '':'' ip_str
            in if length parts < 3 then False
               else if CHR ''.'' \<in> set (last parts)
               then (if valid_ipv4 (last parts) then ipv6_parts_ok (butlast parts @ [''0'', ''0''])
                     else False)
               else ipv6_parts_ok parts))"

definition valid_ipv6 :: "string \<Rightarrow> bool" where
  \<comment> \<open>\<open>IPv6Address(s)\<close> does not raise; a scope id after \<open>%\<close> must be non-empty and
      free of \<open>%\<close>.\<close>
  "valid_ipv6 s =
     (if CHR ''/'' \<in> set s then False
      else if CHR ''%'' \<in> set s
      then (let scope_id = drop 1 (dropWhile (\<lambda>c. c \<noteq> CHR ''%'') s)
            in if scope_id = [] then False
               else if CHR ''%'' \<in> set scope_id then False
               else ipv6_body_ok (takeWhile (\<lambda>c. c \<noteq> CHR ''%'') s))
      else ipv6_body_ok s)"

definition valid_ipvfuture :: "string \<Rightarrow> bool" where
  \<comment> \<open>\<open>re.match(r"\Av[a-fA-F0-9]+\..+\Z", hostname)\<close>\<close>
  "valid_ipvfuture h =
     (case h of
        [] \<Rightarrow> False
      | c # rest \<Rightarrow>
          c = CHR ''v'' \<and> takeWhile is_hex_digit rest \<noteq> []
          \<and> (case dropWhile is_hex_digit rest of
                [] \<Rightarrow> False
              | d # tail \<Rightarrow> d = CHR ''.'' \<and> tail \<noteq> [] \<and> list_all (\<lambda>x. (of_char x :: nat) \<noteq> 10) tail))"

definition check_bracketed_host :: "string \<Rightarrow> bool" where
  \<comment> \<open>\<open>_check_bracketed_host(hostname)\<close> returns (\<open>False\<close>: it raises \<open>ValueError\<close>).\<close>
  "check_bracketed_host hostname =
     (if take 1 hostname = ''v'' then valid_ipvfuture hostname
      else if valid_ipv4 hostname then False
      else valid_ipv6 hostname)"

definition netloc_ok :: "string \<Rightarrow> bool" where
  \<comment> \<open>The checks of \<open>urlsplit\<close> on the netloc (\<open>False\<close>: \<open>ValueError\<close>): a bracket without
      its partner is refused, and the text between the first \<open>[\<close> and the next \<open>]\<close> must be
      a valid bracketed host. \<open>_checknetloc\<close> refuses nothing on code points below 256.\<close>
  "netloc_ok netloc =
     (if CHR ''['' \<in> set netloc
      then (if CHR '']'' \<in> set netloc
            then check_bracketed_host
                   (takeWhile (\<lambda>c. c \<noteq> CHR '']'') (drop 1 (dropWhile (\<lambda>c. c \<noteq> CHR ''['') netloc)))
            else False)
      else (if CHR '']'' \<in> set netloc then False else True))"

subsection \<open>\<open>urlparse(url).path\<close>\<close>

definition is_ascii_alpha :: "char \<Rightarrow> bool" where
  "is_ascii_alpha c =
     (let n = (of_char c :: nat) in (65 \<le> n \<and> n \<le> 90) \<or> (97 \<le> n \<and> n \<le> 122))"

definition is_scheme_char :: "char \<Rightarrow> bool" where
  \<comment> \<open>\<open>scheme_chars\<close>: letters, digits and \<open>+-.\<close>\<close>
  "is_scheme_char c =
     (let n = (of_char c :: nat)
      in is_ascii_alpha c \<or> (48 \<le> n \<and> n \<le> 57) \<or> c = CHR ''+'' \<or> c = CHR ''-'' \<or> c = CHR ''.'')"

definition uses_params :: "string list" where
  "uses_params = ['''', ''ftp'', ''hdl'', ''prospero'', ''http'', ''imap'',
                  ''https'', ''shttp'', ''rtsp'', ''rtsps'', ''rtspu'', ''sip'',
                  ''sips'', ''mms'', ''sftp'', ''tel'']"

definition url_clean :: "string \<Rightarrow> string" where
  \<comment> \<open>\<open>url.lstrip(C0 controls and space)\<close>, then tab, CR and LF are removed everywhere.\<close>
  "url_clean url =
     filter (\<lambda>c. (of_char c :: nat) \<noteq> 9 \<and> (of_char c :: nat) \<noteq> 10 \<and> (of_char c :: nat) \<noteq> 13)
       (dropWhile (\<lambda>c. (of_char c :: nat) \<le> 32) url)"

definition split_scheme :: "string \<Rightarrow> string \<times> string" where
  \<comment> \<open>\<open>i = url.find(':')\<close>; a scheme is split off when \<open>i > 0\<close>, the first character is an
      ASCII letter and every character before the colon is a scheme character.\<close>
  "split_scheme url =
     (case py_find CHR '':'' url of
        None \<Rightarrow> ('''', url)
      | Some i \<Rightarrow>
          (case url of
             [] \<Rightarrow> ('''', url)
           | c0 # _ \<Rightarrow>
               if 0 < i \<and> is_ascii_alpha c0 \<and> list_all is_scheme_char (take i url)
               then (py_lower (take i url), drop (Suc i) url)
               else ('''', url)))"

definition is_netloc_delim :: "char \<Rightarrow> bool" where
  "is_netloc_delim c = (c = CHR ''/'' \<or> c = CHR ''?'' \<or> c = CHR ''#'')"

definition splitnetloc :: "string \<Rightarrow> string \<times> string" where
  \<comment> \<open>\<open>_splitnetloc(url, 2)\<close>: the netloc ends at the earliest of \<open>/ ? #\<close>.\<close>
  "splitnetloc url =
     (let rest = drop 2 url
      in (takeWhile (\<lambda>c. \<not> is_netloc_delim c) rest, dropWhile (\<lambda>c. \<not> is_netloc_delim c) rest))"

definition splitparams :: "string \<Rightarrow> string" where
  \<comment> \<open>The first component of \<open>_splitparams(url)\<close>.\<close>
  "splitparams url =
     (if CHR ''/'' \<in> set url
      then (case py_rfind CHR ''/'' url of
              None \<Rightarrow> url
            | Some r \<Rightarrow>
                (case py_find_from CHR '';'' r url of
                   None \<Rightarrow> url
                 | Some i \<Rightarrow> take i url))
      else (case py_find CHR '';'' url of None \<Rightarrow> url | Some i \<Rightarrow> take i url))"

definition strip_to_path :: "string \<Rightarrow> string \<Rightarrow> string" where
  \<comment> \<open>What is left of the URL after scheme and netloc: the fragment (from the first \<open>#\<close>)
      and the query (from the first \<open>?\<close>) are cut off, and for the schemes of
      \<open>uses_params\<close> the parameters of the last segment.\<close>
  "strip_to_path scheme url =
     (let url3 = takeWhile (\<lambda>c. c \<noteq> CHR ''#'') url;
          url4 = takeWhile (\<lambda>c. c \<noteq> CHR ''?'') url3
      in if scheme \<in> set uses_params \<and> CHR '';'' \<in> set url4 then splitparams url4 else url4)"

definition urlparse_path :: "string \<Rightarrow> exn + string" where
  \<comment> \<open>The \<open>path\<close> field of \<open>urlparse(url)\<close>, or the \<open>ValueError\<close> it raises on a netloc
      that \<open>urlsplit\<close> refuses.\<close>
  "urlparse_path url0 =
     (let (scheme, url1) = split_scheme (url_clean url0)
      in if take 2 url1 = ''//''
         then (let (netloc, url2) = splitnetloc url1
               in if netloc_ok netloc then Inr (strip_to_path scheme url2) else Inl ValueError)
         else Inr (strip_to_path scheme url1))"

subsection \<open>\<open>Path(p).suffix\<close> and \<open>Path(a) / b\<close>\<close>

definition path_parts :: "string \<Rightarrow> string list" where
  \<comment> \<open>The components of a POSIX path: the pieces between slashes that are neither empty
      nor \<open>.\<close>\<close>
  "path_parts p = filter (\<lambda>x. x \<noteq> [] \<and> x \<noteq> ''.'') (split_on CHR ''/'' p)"

definition path_root :: "string \<Rightarrow> string" where
  \<comment> \<open>\<open>splitroot\<close>: exactly two leading slashes are kept, any other number is one.\<close>
  "path_root p =
     (case p of
        [] \<Rightarrow> []
      | c # _ \<Rightarrow>
          if c = CHR ''/''
          then (if length (takeWhile (\<lambda>x. x = CHR ''/'') p) = 2 then ''//'' else ''/'')
          else [])"

definition path_name :: "string \<Rightarrow> string" where
  \<comment> \<open>\<open>PurePosixPath(p).name\<close>: the last component; the empty string when there is none.\<close>
  "path_name p = (case rev (path_parts p) of [] \<Rightarrow> [] | x # _ \<Rightarrow> x)"

definition name_suffix :: "string \<Rightarrow> string" where
  \<comment> \<open>\<open>i = name.rfind('.')\<close>; \<open>name[i:]\<close> if \<open>0 < i < len(name) - 1\<close>, else \<open>''\<close>.\<close>
  "name_suffix name =
     (case py_rfind CHR ''.'' name of
        None \<Rightarrow> []
      | Some i \<Rightarrow> if 0 < i \<and> Suc i < length name then drop i name else [])"

definition LOGOS_DIR :: string where
  "LOGOS_DIR = ''./logos''"

definition local_path :: "string \<Rightarrow> string" where
  \<comment> \<open>\<open>str(LOGOS_DIR / name)\<close>: a name with a root replaces the directory; otherwise the
      components of the name follow those of the directory.\<close>
  "local_path name =
     (if path_root name \<noteq> [] then path_root name @ join_with CHR ''/'' (path_parts name)
      else (case path_parts LOGOS_DIR @ path_parts name of
              [] \<Rightarrow> ''.''
            | ps \<Rightarrow> join_with CHR ''/'' ps))"

definition url_suffix_lower :: "string \<Rightarrow> exn + string" where
  \<comment> \<open>The expression \<open>Path(urlparse(url).path).suffix.lower()\<close>, which both scripts use.\<close>
  "url_suffix_lower url =
     (case urlparse_path url of
        Inl e \<Rightarrow> Inl e
      | Inr p \<Rightarrow> Inr (py_lower (name_suffix (path_name p))))"

section \<open>Content type and storage key\<close>

definition mapping :: "(string \<times> string) list" where
  "mapping =
     [(''.png'', ''image/png''),
      (''.jpg'', ''image/jpeg''),
      (''.jpeg'', ''image/jpeg''),
      (''.gif'', ''image/gif''),
      (''.svg'', ''image/svg+xml''),
      (''.webp'', ''image/webp'')]"

definition get_content_type :: "string \<Rightarrow> exn + string" where
  "get_content_type url =
     (case url_suffix_lower url of
        Inl e \<Rightarrow> Inl e
      | Inr ext \<Rightarrow> Inr (case map_of mapping ext of None \<Rightarrow> ''image/png'' | Some t \<Rightarrow> t))"

definition generate_r2_key :: "string \<Rightarrow> string \<Rightarrow> exn + string" where
  \<comment> \<open>\<open>f"{image_slug}{ext}"\<close>; the caller passes the slug as it is formatted.\<close>
  "generate_r2_key image_slug logo_url =
     (case url_suffix_lower logo_url of
        Inl e \<Rightarrow> Inl e
      | Inr ext0 \<Rightarrow>
          (let ext = (if ext0 = [] then ''.png'' else ext0)
           in Inr (image_slug @ ext)))"

definition get_extension_from_url :: "string \<Rightarrow> exn + string" where
  \<comment> \<open>The download-only script's helper.\<close>
  "get_extension_from_url url =
     (case url_suffix_lower url of
        Inl e \<Rightarrow> Inl e
      | Inr ext \<Rightarrow> Inr (if ext = [] then ''.png'' else ext))"

section \<open>Documents, the collection and its queries\<close>

text \<open>
  A field of an organization document holds \<open>null\<close>, a string or a timestamp (the script
  itself writes one); a timestamp is kept as the text Python prints for it. A document is
  an association list: a field may be absent, which differs from holding \<open>null\<close>.
\<close>

datatype val = Null | Str string | Date string

type_synonym doc = "(string \<times> val) list"

definition doc_get :: "doc \<Rightarrow> string \<Rightarrow> val" where
  \<comment> \<open>\<open>org_doc.get(key)\<close>: Python's \<open>None\<close> for an absent key and for a stored \<open>null\<close>.\<close>
  "doc_get d k = (case map_of d k of None \<Rightarrow> Null | Some v \<Rightarrow> v)"

fun truthy :: "val \<Rightarrow> bool" where
  "truthy Null = False"
| "truthy (Str s) = (s \<noteq> [])"
| "truthy (Date t) = True"

definition py_or :: "val \<Rightarrow> val \<Rightarrow> val" where
  "py_or a b = (if truthy a then a else b)"

fun py_str :: "val \<Rightarrow> string" where
  "py_str Null = ''None''"
| "py_str (Str s) = s"
| "py_str (Date t) = t"

definition py_dict :: "('k \<times> 'v) list \<Rightarrow> ('k \<times> 'v) list" where
  \<comment> \<open>A Python dict display \<open>{k1: v1, k2: v2, ...}\<close>: the items are stored left to right,
      and a key that is written again keeps its place and takes the later value.\<close>
  "py_dict items = fold (\<lambda>(k, v) d. AList.update k v d) items []"

datatype opval = OBool bool | OVal val | OList "val list"

datatype fcond = FEq val | FOps "(string \<times> opval) list"

datatype query = QField string fcond | QAnd "query list" | QOr "query list"

definition eq_match :: "doc \<Rightarrow> string \<Rightarrow> val \<Rightarrow> bool" where
  \<comment> \<open>The filter \<open>{field: v}\<close>: equality, and \<open>null\<close> also matches an absent field.\<close>
  "eq_match d field v = (case map_of d field of None \<Rightarrow> v = Null | Some x \<Rightarrow> x = v)"

fun op_holds :: "doc \<Rightarrow> string \<Rightarrow> string \<times> opval \<Rightarrow> bool" where
  \<comment> \<open>The three operators the scripts use; any other entry matches nothing.\<close>
  "op_holds d field (name, arg) =
     (if name = ''$exists'' then (case arg of OBool b \<Rightarrow> (map_of d field \<noteq> None) = b | _ \<Rightarrow> False)
      else if name = ''$ne'' then (case arg of OVal v \<Rightarrow> \<not> eq_match d field v | _ \<Rightarrow> False)
      else if name = ''$in'' then (case arg of OList vs \<Rightarrow> list_ex (eq_match d field) vs | _ \<Rightarrow> False)
      else False)"

fun matches :: "doc \<Rightarrow> query \<Rightarrow> bool" where
  "matches d (QField field (FEq v)) = eq_match d field v"
| "matches d (QField field (FOps ops)) = list_all (op_holds d field) ops"
| "matches d (QAnd qs) = list_all (matches d) qs"
| "matches d (QOr qs) = list_ex (matches d) qs"

definition find_docs :: "doc list \<Rightarrow> query \<Rightarrow> doc list" where
  \<comment> \<open>\<open>list(db.organizations.find(query))\<close>, in the collection's order.\<close>
  "find_docs coll q = filter (\<lambda>d. matches d q) coll"

fun str_less :: "string \<Rightarrow> string \<Rightarrow> bool" where
  "str_less [] [] = False"
| "str_less [] (y # ys) = True"
| "str_less (x # xs) [] = False"
| "str_less (x # xs) (y # ys) =
     (if (of_char x :: nat) < of_char y then True
      else if (of_char y :: nat) < of_char x then False
      else str_less xs ys)"

fun val_less :: "val \<Rightarrow> val \<Rightarrow> bool" where
  \<comment> \<open>The sort order of the three kinds: \<open>null\<close>, then strings, then dates.\<close>
  "val_less Null Null = False"
| "val_less Null _ = True"
| "val_less (Str a) Null = False"
| "val_less (Str a) (Str b) = str_less a b"
| "val_less (Str a) (Date t) = True"
| "val_less (Date s) (Date t) = str_less s t"
| "val_less (Date s) _ = False"

fun greatest_by :: "string \<Rightarrow> doc \<Rightarrow> doc list \<Rightarrow> doc" where
  "greatest_by field best [] = best"
| "greatest_by field best (d # ds) =
     (if val_less (doc_get best field) (doc_get d field)
      then greatest_by field d ds else greatest_by field best ds)"

definition find_sorted_desc_limit1 :: "doc list \<Rightarrow> query \<Rightarrow> string \<Rightarrow> doc list" where
  \<comment> \<open>\<open>list(find(query).sort(field, -1).limit(1))\<close>; among equal keys the first in the
      collection's order is taken.\<close>
  "find_sorted_desc_limit1 coll q field =
     (case find_docs coll q of [] \<Rightarrow> [] | d # ds \<Rightarrow> [greatest_by field d ds])"

definition image_ops :: "(string \<times> opval) list" where
  \<comment> \<open>The display \<open>{"$exists": True, "$ne": None, "$ne": ""}\<close> as the source writes it.\<close>
  "image_ops = py_dict [(''$exists'', OBool True), (''$ne'', OVal Null), (''$ne'', OVal (Str ''''))]"

definition default_query :: query where
  "default_query =
     QAnd [
       QOr [
         QField ''logo_r2_url'' (FOps (py_dict [(''$exists'', OBool False)])),
         QField ''logo_r2_url'' (FEq Null),
         QField ''logo_r2_url'' (FEq (Str ''''))
       ],
       QOr [
         QField ''image_url'' (FOps image_ops),
         QField ''logoUrl'' (FOps image_ops)
       ],
       QField ''image_slug'' (FOps image_ops)
     ]"

section \<open>The world the scripts act on\<close>

text \<open>
  The state outside the process: the files under the logos directory (by path), the
  objects of the bucket (body and content type, by key), the organizations collection, and
  the list of calls made to the three services, oldest first.
\<close>

datatype call = CDownload string string | CPut string string | CUpdate val

record world =
  w_files :: "string \<rightharpoonup> string"
  w_bucket :: "string \<rightharpoonup> string \<times> string"
  w_db :: "doc list"
  w_calls :: "call list"

text \<open>
  What the services answer while one record is processed. A download either delivers the
  body, or fails before the file is opened (\<open>FetchFailed None\<close>), or fails while the body is
  written, leaving what was written so far. An upload or an update that fails raises in the
  client and changes nothing on the server. Reading the size of a file that was just
  written succeeds, so \<open>local_path.stat()\<close> has no branch of its own.
\<close>

datatype fetch_result = Fetched string | FetchFailed "string option"

record outcome =
  fetch :: fetch_result
  put_ok :: bool
  update_ok :: bool
  utcnow :: string

type_synonym environ = "(string \<times> string) list"

definition getenv :: "environ \<Rightarrow> string \<Rightarrow> string option" where
  "getenv env k = map_of env k"

definition getenv_default :: "environ \<Rightarrow> string \<Rightarrow> string \<Rightarrow> string" where
  "getenv_default env k dflt = (case map_of env k of None \<Rightarrow> dflt | Some v \<Rightarrow> v)"

definition R2_PUBLIC_URL :: "environ \<Rightarrow> string" where
  "R2_PUBLIC_URL env = py_rstrip CHR ''/'' (getenv_default env ''R2_PUBLIC_URL'' '''')"

definition DRY_RUN :: "environ \<Rightarrow> bool" where
  "DRY_RUN env = (py_lower (getenv_default env ''DRY_RUN'' ''false'') \<in> set [''1'', ''true'', ''yes''])"

definition opt_str :: "string option \<Rightarrow> string" where
  \<comment> \<open>An optional setting inside an f-string.\<close>
  "opt_str v = (case v of None \<Rightarrow> ''None'' | Some s \<Rightarrow> s)"

definition unset :: "string option \<Rightarrow> bool" where
  \<comment> \<open>\<open>not value\<close> for a setting: \<open>None\<close> or the empty string.\<close>
  "unset v = (case v of None \<Rightarrow> True | Some s \<Rightarrow> s = [])"

definition validate_config :: "environ \<Rightarrow> string list" where
  \<comment> \<open>The list \<open>missing\<close>; the script exits with status 1 when it is not empty.\<close>
  "validate_config env =
     filter (\<lambda>k. unset (getenv env k))
       [''R2_ACCESS_KEY_ID'', ''R2_SECRET_ACCESS_KEY'', ''R2_ACCOUNT_ID'', ''R2_BUCKET_NAME'', ''MONGO_URI'']"

definition download_logo :: "outcome \<Rightarrow> string \<Rightarrow> string \<Rightarrow> world \<Rightarrow> bool \<times> world" where
  "download_logo ext url output_path w =
     (let w1 = w\<lparr>w_calls := w_calls w @ [CDownload url output_path]\<rparr>
      in case fetch ext of
           Fetched body \<Rightarrow> (True, w1\<lparr>w_files := (w_files w1)(output_path \<mapsto> body)\<rparr>)
         | FetchFailed None \<Rightarrow> (False, w1)
         | FetchFailed (Some part) \<Rightarrow> (False, w1\<lparr>w_files := (w_files w1)(output_path \<mapsto> part)\<rparr>))"

definition upload_to_r2 :: "outcome \<Rightarrow> string \<Rightarrow> string \<Rightarrow> string \<Rightarrow> world \<Rightarrow> bool \<times> world" where
  "upload_to_r2 ext path r2_key content_type w =
     (case w_files w path of
        None \<Rightarrow> (False, w)
      | Some body \<Rightarrow>
          (let w1 = w\<lparr>w_calls := w_calls w @ [CPut r2_key content_type]\<rparr>
           in if put_ok ext
              then (True, w1\<lparr>w_bucket := (w_bucket w1)(r2_key \<mapsto> (body, content_type))\<rparr>)
              else (False, w1)))"

fun update_first :: "(doc \<Rightarrow> bool) \<Rightarrow> (doc \<Rightarrow> doc) \<Rightarrow> doc list \<Rightarrow> doc list" where
  "update_first P f [] = []"
| "update_first P f (d # ds) = (if P d then f d # ds else d # update_first P f ds)"

definition apply_set :: "(string \<times> val) list \<Rightarrow> doc \<Rightarrow> doc" where
  "apply_set sets d = fold (\<lambda>(k, v) d. AList.update k v d) sets d"

definition update_one :: "outcome \<Rightarrow> val \<Rightarrow> (string \<times> val) list \<Rightarrow> world \<Rightarrow> bool \<times> world" where
  \<comment> \<open>\<open>db.organizations.update_one({"canonical_id": cid}, {"$set": sets})\<close>: the first
      matching document is updated, and matching none is not an error. \<open>False\<close>: the call
      raised.\<close>
  "update_one ext cid sets w =
     (let w1 = w\<lparr>w_calls := w_calls w @ [CUpdate cid]\<rparr>
      in if update_ok ext
         then (True, w1\<lparr>w_db := update_first (\<lambda>d. eq_match d ''canonical_id'' cid) (apply_set sets) (w_db w1)\<rparr>)
         else (False, w1))"

section \<open>The download-and-upload script\<close>

definition public_url_of :: "environ \<Rightarrow> string \<Rightarrow> string" where
  "public_url_of env r2_key =
     (if R2_PUBLIC_URL env \<noteq> [] then R2_PUBLIC_URL env @ ''/'' @ r2_key
      else ''https://'' @ opt_str (getenv env ''R2_ACCOUNT_ID'') @ ''.r2.cloudflarestorage.com/''
           @ opt_str (getenv env ''R2_BUCKET_NAME'') @ ''/'' @ r2_key)"

definition process_organization ::
    "environ \<Rightarrow> outcome \<Rightarrow> world \<Rightarrow> doc \<Rightarrow> bool \<Rightarrow> (exn + bool) \<times> world" where
  \<comment> \<open>\<open>Inl\<close>: the exception that leaves the function, raised by \<open>urlparse\<close> on a URL that
      is not a string (\<open>AttributeError\<close>) or that it refuses (\<open>ValueError\<close>).\<close>
  "process_organization env ext w org_doc dry_run =
     (let canonical_id = doc_get org_doc ''canonical_id'';
          image_slug = doc_get org_doc ''image_slug'';
          image_url = doc_get org_doc ''image_url'';
          logo_url = py_or image_url (doc_get org_doc ''logoUrl'')
      in if \<not> truthy logo_url then (Inr False, w)
         else if \<not> truthy image_slug then (Inr False, w)
         else (case logo_url of
                 Str url \<Rightarrow>
                   (case generate_r2_key (py_str image_slug) url of
                      Inl e \<Rightarrow> (Inl e, w)
                    | Inr r2_key \<Rightarrow>
                        (let path = local_path r2_key;
                             (downloaded, w1) = download_logo ext url path w
                         in if \<not> downloaded then (Inr False, w1)
                            else if dry_run then (Inr True, w1)
                            else (case get_content_type url of
                                    Inl e \<Rightarrow> (Inl e, w1)
                                  | Inr content_type \<Rightarrow>
                                      (let (uploaded, w2) = upload_to_r2 ext path r2_key content_type w1
                                       in if \<not> uploaded then (Inr False, w2)
                                          else (let public_url = public_url_of env r2_key;
                                                    (updated, w3) =
                                                      update_one ext canonical_id
                                                        [(''logo_local_filename'', Str r2_key),
                                                         (''logo_r2_url'', Str public_url),
                                                         (''logo_uploaded_at'', Date (utcnow ext))] w2
                                                in if updated then (Inr True, w3) else (Inr False, w3))))))
               | _ \<Rightarrow> (Inl AttributeError, w)))"

text \<open>
  The loop of \<open>run\<close>: \<open>ext idx\<close> is what the services answer while record number \<open>idx\<close> is
  processed; the state is the world and the two counters. \<open>except Exception\<close> is the
  \<open>Inl\<close> branch. The pause between two records is not modelled.
\<close>

fun run_loop ::
    "environ \<Rightarrow> (nat \<Rightarrow> outcome) \<Rightarrow> bool \<Rightarrow> nat \<Rightarrow> doc list \<Rightarrow> world \<times> nat \<times> nat \<Rightarrow> world \<times> nat \<times> nat" where
  "run_loop env ext dry_run idx [] st = st"
| "run_loop env ext dry_run idx (org # orgs) (w, success_count, fail_count) =
     (case process_organization env (ext idx) w org dry_run of
        (Inr ok, w') \<Rightarrow>
          if ok then run_loop env ext dry_run (Suc idx) orgs (w', Suc success_count, fail_count)
          else run_loop env ext dry_run (Suc idx) orgs (w', success_count, Suc fail_count)
      | (Inl e, w') \<Rightarrow> run_loop env ext dry_run (Suc idx) orgs (w', success_count, Suc fail_count))"

datatype run_result = SysExit nat | NoOrgs | Done world nat nat

definition or_empty :: "'a list option \<Rightarrow> 'a list" where
  \<comment> \<open>An optional argument under \<open>if arg:\<close>: \<open>None\<close> counts like the empty value.\<close>
  "or_empty v = (case v of None \<Rightarrow> [] | Some xs \<Rightarrow> xs)"

definition select_orgs :: "doc list \<Rightarrow> string option \<Rightarrow> string list option \<Rightarrow> doc list" where
  \<comment> \<open>The three branches of \<open>run\<close> that build the query and fetch the records.\<close>
  "select_orgs coll test_org org_slugs =
     (if or_empty test_org \<noteq> []
      then find_sorted_desc_limit1 coll (QField ''slug'' (FEq (Str (or_empty test_org)))) ''canonical_id''
      else if or_empty org_slugs \<noteq> []
      then find_docs coll (QField ''slug'' (FOps (py_dict [(''$in'', OList (map Str (or_empty org_slugs)))])))
      else find_docs coll default_query)"

definition run ::
    "environ \<Rightarrow> (nat \<Rightarrow> outcome) \<Rightarrow> world \<Rightarrow> string option \<Rightarrow> string list option \<Rightarrow> bool option \<Rightarrow> run_result" where
  "run env ext w test_org org_slugs dry_run_arg =
     (let dry_run = (case dry_run_arg of None \<Rightarrow> DRY_RUN env | Some b \<Rightarrow> b)
      in if validate_config env \<noteq> [] then SysExit 1
         else (let orgs = select_orgs (w_db w) test_org org_slugs
               in if orgs = [] then NoOrgs
                  else (case run_loop env ext dry_run 1 orgs (w, 0, 0) of
                          (w', success_count, fail_count) \<Rightarrow> Done w' success_count fail_count)))"

text \<open>
  The namespace \<open>parse_args()\<close> returns: \<open>--dry-run\<close> is a \<open>store_true\<close> flag, so its field is
  \<open>False\<close> on a command line without it.
\<close>

record args =
  a_test_org :: "string option"
  a_orgs :: "string list option"
  a_dry_run :: bool

definition main :: "environ \<Rightarrow> (nat \<Rightarrow> outcome) \<Rightarrow> world \<Rightarrow> args \<Rightarrow> run_result" where
  "main env ext w a = run env ext w (a_test_org a) (a_orgs a) (Some (a_dry_run a))"

section \<open>The download-only script\<close>


section \<open>Sample inputs\<close>

text \<open>
  Concrete values at which the theorems below are evaluated: a complete configuration, the
  record of the specification's end-to-end scenario, a world whose collection holds that
  record, and services that answer every call.
\<close>

definition sample_env :: environ where
  "sample_env =
     [(''R2_ACCESS_KEY_ID'', ''key''), (''R2_SECRET_ACCESS_KEY'', ''secret''),
      (''R2_ACCOUNT_ID'', ''acct''), (''R2_BUCKET_NAME'', ''logos''),
      (''MONGO_URI'', ''mongodb://db'')]"

definition sample_env_dry :: environ where
  "sample_env_dry = (''DRY_RUN'', ''true'') # sample_env"

definition sample_org :: doc where
  "sample_org =
     [(''canonical_id'', Str ''gsoc-unikraft-2024''), (''slug'', Str ''unikraft''),
      (''image_slug'', Str ''unikraft''), (''image_url'', Str ''https://host/logo.png'')]"

definition org_wrong_id :: doc where
  "org_wrong_id =
     [(''canonical_id'', Str ''no-such-id''), (''slug'', Str ''unikraft''),
      (''image_slug'', Str ''unikraft''), (''image_url'', Str ''https://host/logo.png'')]"

definition org_null_url :: doc where
  "org_null_url =
     [(''canonical_id'', Str ''gsoc-jitsi-2024''), (''slug'', Str ''jitsi''),
      (''image_slug'', Str ''jitsi''), (''image_url'', Null)]"

definition org_null_slug :: doc where
  "org_null_slug =
     [(''canonical_id'', Str ''gsoc-oppia-2024''), (''slug'', Str ''oppia''),
      (''image_slug'', Null), (''image_url'', Str ''https://host/oppia.png'')]"

definition org_no_url :: doc where
  "org_no_url =
     [(''canonical_id'', Str ''gsoc-jitsi-2024''), (''slug'', Str ''jitsi''),
      (''image_slug'', Str ''jitsi'')]"

definition org_no_slug :: doc where
  "org_no_slug =
     [(''canonical_id'', Str ''gsoc-oppia-2024''), (''slug'', Str ''oppia''),
      (''image_url'', Str ''https://host/oppia.png'')]"

definition org_bad_host :: doc where
  "org_bad_host =
     [(''canonical_id'', Str ''gsoc-oppia-2024''), (''slug'', Str ''oppia''),
      (''image_slug'', Str ''oppia''), (''image_url'', Str ''https://[::1/logo.png'')]"

definition org_date_url :: doc where
  "org_date_url =
     [(''canonical_id'', Str ''gsoc-oppia-2024''), (''slug'', Str ''oppia''),
      (''image_slug'', Str ''oppia''), (''image_url'', Date ''2024-05-01 10:00:00'')]"

definition sample_world :: world where
  "sample_world = \<lparr>w_files = Map.empty, w_bucket = Map.empty, w_db = [sample_org], w_calls = []\<rparr>"


definition all_ok :: outcome where
  "all_ok = \<lparr>fetch = Fetched ''PNG'', put_ok = True, update_ok = True, utcnow = ''2024-05-01 10:00:00''\<rparr>"

definition update_raises :: outcome where
  "update_raises = \<lparr>fetch = Fetched ''PNG'', put_ok = True, update_ok = False, utcnow = ''2024-05-01 10:00:00''\<rparr>"

definition fetch_fails :: outcome where
  "fetch_fails = \<lparr>fetch = FetchFailed None, put_ok = True, update_ok = True, utcnow = ''2024-05-01 10:00:00''\<rparr>"

definition every_fetch_fails :: "nat \<Rightarrow> outcome" where
  "every_fetch_fails idx = fetch_fails"

definition every_ok :: "nat \<Rightarrow> outcome" where
  "every_ok idx = all_ok"

definition every_update_raises :: "nat \<Rightarrow> outcome" where
  "every_update_raises idx = update_raises"

definition no_flags :: args where
  "no_flags = \<lparr>a_test_org = None, a_orgs = None, a_dry_run = False\<rparr>"

section \<open>Words of the claims\<close>

text \<open>
  A URL written out from its parts, \<open>scheme://host\<close>, then a path \<open>dir/name\<close>, then a
  query or fragment: the scheme starts with a letter, the host has no bracket, the
  directory is empty or starts with a slash, and none of the parts holds a delimiter of a
  later part, a blank or a control character.
\<close>

definition url_text :: "string \<Rightarrow> string \<Rightarrow> string \<Rightarrow> string \<Rightarrow> string \<Rightarrow> string" where
  "url_text scheme host dir name rest = scheme @ ''://'' @ host @ dir @ ''/'' @ name @ rest"

definition url_parts_ok :: "string \<Rightarrow> string \<Rightarrow> string \<Rightarrow> string \<Rightarrow> string \<Rightarrow> bool" where
  "url_parts_ok scheme host dir name rest =
     ((case scheme of [] \<Rightarrow> False | c # _ \<Rightarrow> is_ascii_alpha c)
      \<and> list_all is_scheme_char scheme
      \<and> list_all (\<lambda>x. x \<notin> set ''/?#[]'') host
      \<and> take 1 dir \<in> set ['''', ''/'']
      \<and> list_all (\<lambda>x. x \<notin> set ''?#;'') dir
      \<and> list_all (\<lambda>x. x \<notin> set ''/?#;'') name
      \<and> take 1 rest \<in> set ['''', ''?'', ''#'']
      \<and> list_all (\<lambda>x. 32 < (of_char x :: nat)) (scheme @ host @ dir @ name @ rest))"

section \<open>Facts about URLs and paths\<close>

lemma py_find_append:
  "c \<notin> set xs \<Longrightarrow> py_find c (xs @ c # ys) = Some (length xs)"
  by (induction xs) auto

lemma py_find_None: "c \<notin> set xs \<Longrightarrow> py_find c xs = None"
  by (induction xs) auto

lemma split_on_not_Nil: "split_on c xs \<noteq> []"
  by (induction xs) (auto split: list.splits)

lemma split_on_append:
  "split_on c (xs @ c # ys) = split_on c xs @ split_on c ys"
proof (induction xs)
  case Nil
  show ?case by simp
next
  case (Cons x xs)
  show ?case
  proof (cases "x = c")
    case True
    then show ?thesis using Cons.IH by simp
  next
    case False
    obtain p ps where s: "split_on c xs = p # ps"
      using split_on_not_Nil [of c xs] by (cases "split_on c xs") auto
    show ?thesis using False Cons.IH s by simp
  qed
qed

lemma split_on_single: "c \<notin> set xs \<Longrightarrow> split_on c xs = [xs]"
  by (induction xs) auto

lemma path_name_last:
  assumes "CHR ''/'' \<notin> set name" and "name \<noteq> []" and "name \<noteq> ''.''"
  shows "path_name (dir @ ''/'' @ name) = name"
  using assms by (simp add: path_name_def path_parts_def split_on_append split_on_single)

lemma name_suffix_dot:
  assumes "stem \<noteq> []" and "ext \<noteq> []" and "CHR ''.'' \<notin> set ext"
  shows "name_suffix (stem @ ''.'' @ ext) = ''.'' @ ext"
proof -
  have "py_find CHR ''.'' (rev ext @ CHR ''.'' # rev stem) = Some (length ext)"
    using assms(3) py_find_append [of "CHR ''.''" "rev ext" "rev stem"] by simp
  then have "py_rfind CHR ''.'' (stem @ ''.'' @ ext) = Some (length stem)"
    by (simp add: py_rfind_def)
  then show ?thesis using assms by (simp add: name_suffix_def)
qed

lemma name_suffix_none: "CHR ''.'' \<notin> set name \<Longrightarrow> name_suffix name = []"
  by (simp add: name_suffix_def py_rfind_def py_find_None)

lemma scheme_char_not_colon: "is_scheme_char c \<Longrightarrow> c \<noteq> CHR '':''"
  by (auto simp: is_scheme_char_def is_ascii_alpha_def Let_def)

lemma url_clean_id:
  assumes "list_all (\<lambda>x. 32 < (of_char x :: nat)) url"
  shows "url_clean url = url"
proof -
  have "dropWhile (\<lambda>c. (of_char c :: nat) \<le> 32) url = url"
    using assms by (cases url) auto
  moreover have "filter (\<lambda>c. (of_char c :: nat) \<noteq> 9 \<and> (of_char c :: nat) \<noteq> 10 \<and> (of_char c :: nat) \<noteq> 13) url = url"
    using assms by (induction url) auto
  ultimately show ?thesis by (simp add: url_clean_def)
qed

lemma split_scheme_ok:
  assumes "scheme = c # cs" and "is_ascii_alpha c" and "list_all is_scheme_char scheme"
  shows "split_scheme (scheme @ '':'' @ r) = (py_lower scheme, r)"
proof -
  have "CHR '':'' \<notin> set scheme"
    using assms(3) scheme_char_not_colon by (auto simp: list_all_iff)
  then have "py_find CHR '':'' (scheme @ CHR '':'' # r) = Some (length scheme)"
    by (rule py_find_append)
  then show ?thesis using assms by (simp add: split_scheme_def)
qed

lemma strip_to_path_plain:
  assumes "list_all (\<lambda>x. x \<notin> set ''?#;'') p" and "take 1 rest \<in> set ['''', ''?'', ''#'']"
  shows "strip_to_path scheme (p @ rest) = p"
proof -
  have a: "\<forall>x\<in>set p. x \<noteq> CHR ''#''" "\<forall>x\<in>set p. x \<noteq> CHR ''?''" "CHR '';'' \<notin> set p"
    using assms(1) by (auto simp: list_all_iff)
  have t: "takeWhile (\<lambda>c. c \<noteq> CHR ''#'') p = p" "takeWhile (\<lambda>c. c \<noteq> CHR ''?'') p = p"
    using a by simp_all
  have b: "takeWhile (\<lambda>c. c \<noteq> CHR ''?'') (takeWhile (\<lambda>c. c \<noteq> CHR ''#'') (p @ rest)) = p"
  proof (cases rest)
    case Nil
    then show ?thesis by (simp add: t)
  next
    case (Cons r rs)
    then consider "r = CHR ''?''" | "r = CHR ''#''" using assms(2) by auto
    then show ?thesis
    proof cases
      case 1
      have "takeWhile (\<lambda>c. c \<noteq> CHR ''#'') (p @ rest) = p @ CHR ''?'' # takeWhile (\<lambda>c. c \<noteq> CHR ''#'') rs"
        using a(1) Cons 1 by simp
      then show ?thesis using a(2) by simp
    next
      case 2
      have "takeWhile (\<lambda>c. c \<noteq> CHR ''#'') (p @ rest) = p"
        using a(1) Cons 2 by simp
      then show ?thesis by (simp add: t)
    qed
  qed
  show ?thesis using a(3) by (simp add: strip_to_path_def b Let_def)
qed

lemma splitnetloc_host:
  assumes "\<forall>x\<in>set host. \<not> is_netloc_delim x"
  shows "splitnetloc (''//'' @ host @ CHR ''/'' # r) = (host, CHR ''/'' # r)"
proof -
  have "takeWhile (\<lambda>c. \<not> is_netloc_delim c) (host @ CHR ''/'' # r) = host"
    using assms by (simp add: is_netloc_delim_def)
  moreover have "dropWhile (\<lambda>c. \<not> is_netloc_delim c) (host @ CHR ''/'' # r) = CHR ''/'' # r"
    using assms by (simp add: is_netloc_delim_def)
  ultimately show ?thesis by (simp add: splitnetloc_def)
qed

lemma url_parts_okD:
  assumes "url_parts_ok scheme host dir name rest"
  shows "case scheme of [] \<Rightarrow> False | c # _ \<Rightarrow> is_ascii_alpha c"
    and "list_all is_scheme_char scheme"
    and "list_all (\<lambda>x. x \<notin> set ''/?#[]'') host"
    and "take 1 dir \<in> set ['''', ''/'']"
    and "list_all (\<lambda>x. x \<notin> set ''?#;'') dir"
    and "list_all (\<lambda>x. x \<notin> set ''/?#;'') name"
    and "take 1 rest \<in> set ['''', ''?'', ''#'']"
    and "list_all (\<lambda>x. 32 < (of_char x :: nat)) (scheme @ host @ dir @ name @ rest)"
  using assms unfolding url_parts_ok_def by blast+

lemma urlparse_path_text:
  assumes "url_parts_ok scheme host dir name rest"
  shows "urlparse_path (url_text scheme host dir name rest) = Inr (dir @ ''/'' @ name)"
proof -
  note d = url_parts_okD [OF assms]
  obtain c cs where sc: "scheme = c # cs" "is_ascii_alpha c"
    using d(1) by (cases scheme) auto
  have vis: "list_all (\<lambda>x. 32 < (of_char x :: nat)) (url_text scheme host dir name rest)"
    using d(8) by (simp add: url_text_def)
  have h: "\<forall>x\<in>set host. \<not> is_netloc_delim x" "CHR ''['' \<notin> set host" "CHR '']'' \<notin> set host"
    using d(3) by (auto simp: list_all_iff is_netloc_delim_def)
  have p: "list_all (\<lambda>x. x \<notin> set ''?#;'') (dir @ ''/'' @ name)"
    using d(5,6) by (auto simp: list_all_iff)
  obtain q where q: "dir @ ''/'' @ name = CHR ''/'' # q"
  proof (cases dir)
    case Nil
    then show ?thesis using that by simp
  next
    case (Cons x xs)
    then have "x = CHR ''/''" using d(4) by simp
    then show ?thesis using that Cons by simp
  qed
  define tail where "tail = ''//'' @ host @ CHR ''/'' # q @ rest"
  have u: "url_text scheme host dir name rest = scheme @ '':'' @ tail"
    using q by (simp add: url_text_def tail_def)
  have s: "split_scheme (scheme @ '':'' @ tail) = (py_lower scheme, tail)"
    using sc d(2) by (rule split_scheme_ok)
  have t2: "take 2 tail = ''//''"
    by (simp add: tail_def)
  have n: "splitnetloc tail = (host, CHR ''/'' # (q @ rest))"
    unfolding tail_def using splitnetloc_host [OF h(1), of "q @ rest"] by simp
  have ok: "netloc_ok host"
    using h(2,3) by (simp add: netloc_ok_def)
  have sp: "strip_to_path (py_lower scheme) ((dir @ ''/'' @ name) @ rest) = dir @ ''/'' @ name"
    using p d(7) by (rule strip_to_path_plain)
  have e: "(dir @ ''/'' @ name) @ rest = CHR ''/'' # (q @ rest)"
    using arg_cong [OF q, of "\<lambda>x. x @ rest"] by simp
  have sp': "strip_to_path (py_lower scheme) (CHR ''/'' # (q @ rest)) = dir @ ''/'' @ name"
    using sp unfolding e .
  have c1: "url_clean (scheme @ '':'' @ tail) = scheme @ '':'' @ tail"
    using vis unfolding u by (rule url_clean_id)
  have "urlparse_path (scheme @ '':'' @ tail) = Inr (dir @ ''/'' @ name)"
    unfolding urlparse_path_def
    by (simp only: c1 s t2 n ok sp' Let_def prod.case if_True refl)
  then show ?thesis by (simp only: u)
qed
lemma url_suffix_lower_ext:
  assumes "url_parts_ok scheme host dir (stem @ ''.'' @ ext) rest"
    and "stem \<noteq> []" and "ext \<noteq> []" and "CHR ''.'' \<notin> set ext"
  shows "url_suffix_lower (url_text scheme host dir (stem @ ''.'' @ ext) rest) = Inr (''.'' @ py_lower ext)"
proof -
  have n: "CHR ''/'' \<notin> set (stem @ ''.'' @ ext)"
    using url_parts_okD(6) [OF assms(1)] by (auto simp: list_all_iff)
  have m: "stem @ ''.'' @ ext \<noteq> []" "stem @ ''.'' @ ext \<noteq> ''.''"
    using assms(2) by (cases stem, simp_all)+
  have p: "path_name (dir @ ''/'' @ (stem @ ''.'' @ ext)) = stem @ ''.'' @ ext"
    using n m by (rule path_name_last)
  have l: "py_lower (''.'' @ ext) = ''.'' @ py_lower ext"
    by (simp add: py_lower_def lower_char_def)
  show ?thesis
    by (simp only: url_suffix_lower_def urlparse_path_text [OF assms(1)] sum.case p
          name_suffix_dot [OF assms(2,3,4)] l)
qed

lemma url_suffix_lower_plain:
  assumes "url_parts_ok scheme host dir name rest" and "name \<noteq> []" and "CHR ''.'' \<notin> set name"
  shows "url_suffix_lower (url_text scheme host dir name rest) = Inr []"
proof -
  have n: "CHR ''/'' \<notin> set name"
    using url_parts_okD(6) [OF assms(1)] by (auto simp: list_all_iff)
  have m: "name \<noteq> ''.''"
    using assms(3) by auto
  have p: "path_name (dir @ ''/'' @ name) = name"
    using n assms(2) m by (rule path_name_last)
  show ?thesis
    by (simp only: url_suffix_lower_def urlparse_path_text [OF assms(1)] sum.case p
          name_suffix_none [OF assms(3)] py_lower_def list.map)
qed

lemma local_path_plain:
  assumes "CHR ''/'' \<notin> set key" and "key \<noteq> []" and "key \<noteq> ''.''"
  shows "local_path key = ''logos/'' @ key"
proof -
  have r: "path_root key = []"
    using assms(1,2) by (cases key) (auto simp: path_root_def)
  have d: "path_parts LOGOS_DIR = [''logos'']"
    by (simp add: LOGOS_DIR_def path_parts_def)
  have k: "path_parts key = [key]"
    using assms by (simp add: path_parts_def split_on_single)
  show ?thesis by (simp add: local_path_def r d k)
qed

section \<open>Facts about one record\<close>

lemma process_organization_skip:
  assumes "\<not> truthy (py_or (doc_get d ''image_url'') (doc_get d ''logoUrl'')) \<or> \<not> truthy (doc_get d ''image_slug'')"
  shows "process_organization env ext w d dry = (Inr False, w)"
  using assms by (auto simp: process_organization_def Let_def)

lemma process_organization_dry:
  assumes "py_or (doc_get d ''image_url'') (doc_get d ''logoUrl'') = Str url" "url \<noteq> []"
    and "truthy (doc_get d ''image_slug'')"
    and "generate_r2_key (py_str (doc_get d ''image_slug'')) url = Inr key"
  shows "process_organization env ext w d True =
           (Inr (fst (download_logo ext url (local_path key) w)),
            snd (download_logo ext url (local_path key) w))"
  using assms by (simp add: process_organization_def Let_def split: prod.splits)

lemma download_logo_calls:
  "w_calls (snd (download_logo ext url p w)) = w_calls w @ [CDownload url p]"
  by (simp add: download_logo_def Let_def split: fetch_result.splits option.splits)

lemma download_logo_fetched:
  "fetch ext = Fetched body \<Longrightarrow>
   download_logo ext url p w = (True, w\<lparr>w_calls := w_calls w @ [CDownload url p], w_files := (w_files w)(p \<mapsto> body)\<rparr>)"
  by (simp add: download_logo_def Let_def)

lemma download_logo_failed:
  "fetch ext = FetchFailed part \<Longrightarrow> fst (download_logo ext url p w) = False"
  by (simp add: download_logo_def Let_def split: option.splits)

lemma process_organization_live:
  assumes "py_or (doc_get d ''image_url'') (doc_get d ''logoUrl'') = Str url" "url \<noteq> []"
    and "truthy (doc_get d ''image_slug'')"
    and "generate_r2_key (py_str (doc_get d ''image_slug'')) url = Inr key"
    and "get_content_type url = Inr ctype"
    and "fetch ext = Fetched body" and "put_ok ext"
  shows "process_organization env ext w d False =
           (Inr (update_ok ext),
            w\<lparr>w_calls := w_calls w @ [CDownload url (local_path key), CPut key ctype,
                                      CUpdate (doc_get d ''canonical_id'')],
              w_files := (w_files w)(local_path key \<mapsto> body),
              w_bucket := (w_bucket w)(key \<mapsto> (body, ctype)),
              w_db := (if update_ok ext
                       then update_first (\<lambda>x. eq_match x ''canonical_id'' (doc_get d ''canonical_id''))
                              (apply_set [(''logo_local_filename'', Str key),
                                          (''logo_r2_url'', Str (public_url_of env key)),
                                          (''logo_uploaded_at'', Date (utcnow ext))]) (w_db w)
                       else w_db w)\<rparr>)"
  using assms
  by (simp add: process_organization_def Let_def download_logo_def upload_to_r2_def update_one_def)

lemma process_organization_dry_frame:
  "w_bucket (snd (process_organization env ext w d True)) = w_bucket w"
  "w_db (snd (process_organization env ext w d True)) = w_db w"
  "w_calls (snd (process_organization env ext w d True)) = w_calls w
   \<or> (\<exists>url p. w_calls (snd (process_organization env ext w d True)) = w_calls w @ [CDownload url p])"
  by (auto simp: process_organization_def Let_def download_logo_def
           split: prod.splits val.splits sum.splits fetch_result.splits option.splits)

section \<open>Facts about the loop\<close>

lemma run_loop_step:
  "run_loop env ext dry idx (org # orgs) (w, s, f) =
     run_loop env ext dry (Suc idx) orgs
       (snd (process_organization env (ext idx) w org dry),
        (if fst (process_organization env (ext idx) w org dry) = Inr True then Suc s else s),
        (if fst (process_organization env (ext idx) w org dry) = Inr True then f else Suc f))"
  by (auto split: prod.splits sum.splits)

lemma run_loop_append:
  "run_loop env ext dry idx (xs @ ys) st =
     run_loop env ext dry (idx + length xs) ys (run_loop env ext dry idx xs st)"
proof (induction xs arbitrary: idx st)
  case Nil
  show ?case by simp
next
  case (Cons x xs)
  obtain w s f where st: "st = (w, s, f)" by (cases st)
  show ?case unfolding st by (simp only: append_Cons run_loop_step Cons.IH) simp
qed

lemma run_loop_counts:
  "fst (snd (run_loop env ext dry idx orgs (w, s, f))) + snd (snd (run_loop env ext dry idx orgs (w, s, f)))
     = s + f + length orgs"
proof (induction orgs arbitrary: idx w s f)
  case Nil
  show ?case by simp
next
  case (Cons x xs)
  show ?case by (simp only: run_loop_step Cons.IH) simp
qed

lemma run_loop_dry_frame:
  "w_bucket (fst (run_loop env ext True idx orgs (w, s, f))) = w_bucket w
   \<and> w_db (fst (run_loop env ext True idx orgs (w, s, f))) = w_db w"
proof (induction orgs arbitrary: idx w s f)
  case Nil
  show ?case by simp
next
  case (Cons x xs)
  show ?case by (simp only: run_loop_step Cons.IH process_organization_dry_frame fst_conv)
qed

section \<open>Storage key and content type\<close>

text \<open>
  C2, as stated. The claim speaks of every source URL, but \<open>urlparse\<close> refuses a URL whose
  host opens a bracket and never closes it: \<open>generate_r2_key\<close> raises \<open>ValueError\<close> and no
  key is derived; \<open>process_organization\<close> passes the exception on to the loop.
\<close>

theorem no_storage_key_for_refused_url:
  "generate_r2_key ''unikraft'' ''https://[::1/logo.png'' = Inl ValueError
   \<and> fst (process_organization sample_env all_ok sample_world org_bad_host False) = Inl ValueError"
  by code_simp

text \<open>
  C2, amended. For every image slug and every source URL that \<open>urlparse\<close> accepts, the
  storage key is the slug followed by the lowercased suffix of the last component of the
  URL's path, and by \<open>.png\<close> when that suffix is empty; the download-only script derives the
  same extension. For a URL written \<open>scheme://host/dir/stem.ext\<close> with a query or fragment
  after it, the key is the slug, a dot and the lowercased \<open>ext\<close>, and when the last component
  has no dot the key ends in \<open>.png\<close>. The two examples of the specification evaluate as it
  says. When a record is downloaded and published, the file is written at the logos
  directory joined with the key, the object is put under the key itself, and for a key
  without a slash that file is \<open>logos/key\<close>.
\<close>

theorem storage_key_derivation:
  "(url_suffix_lower url = Inr e
      \<longrightarrow> generate_r2_key slug url = Inr (slug @ (if e = [] then ''.png'' else e))
          \<and> get_extension_from_url url = Inr (if e = [] then ''.png'' else e))
   \<and> (url_parts_ok scheme host dir (stem @ ''.'' @ ext) rest \<and> stem \<noteq> [] \<and> ext \<noteq> []
        \<and> CHR ''.'' \<notin> set ext
      \<longrightarrow> generate_r2_key slug (url_text scheme host dir (stem @ ''.'' @ ext) rest)
            = Inr (slug @ ''.'' @ py_lower ext))
   \<and> (url_parts_ok scheme host dir name rest \<and> name \<noteq> [] \<and> CHR ''.'' \<notin> set name
      \<longrightarrow> generate_r2_key slug (url_text scheme host dir name rest) = Inr (slug @ ''.png''))
   \<and> generate_r2_key ''unikraft'' ''https://x.org/logo.SVG'' = Inr ''unikraft.svg''
   \<and> generate_r2_key ''jitsi'' ''https://x.org/logo'' = Inr ''jitsi.png''
   \<and> (py_or (doc_get d ''image_url'') (doc_get d ''logoUrl'') = Str url \<and> url \<noteq> []
        \<and> truthy (doc_get d ''image_slug'')
        \<and> generate_r2_key (py_str (doc_get d ''image_slug'')) url = Inr key
        \<and> get_content_type url = Inr ctype \<and> fetch outc = Fetched body \<and> put_ok outc
      \<longrightarrow> w_calls (snd (process_organization env outc w d False)) =
            w_calls w @ [CDownload url (local_path key), CPut key ctype, CUpdate (doc_get d ''canonical_id'')])
   \<and> (CHR ''/'' \<notin> set key \<and> key \<noteq> [] \<and> key \<noteq> ''.'' \<longrightarrow> local_path key = ''logos/'' @ key)"
proof -
  have a: "url_suffix_lower url = Inr e
      \<longrightarrow> generate_r2_key slug url = Inr (slug @ (if e = [] then ''.png'' else e))
          \<and> get_extension_from_url url = Inr (if e = [] then ''.png'' else e)"
    by (simp add: generate_r2_key_def get_extension_from_url_def Let_def)
  have b: "url_parts_ok scheme host dir (stem @ ''.'' @ ext) rest \<and> stem \<noteq> [] \<and> ext \<noteq> []
        \<and> CHR ''.'' \<notin> set ext
      \<longrightarrow> generate_r2_key slug (url_text scheme host dir (stem @ ''.'' @ ext) rest)
            = Inr (slug @ ''.'' @ py_lower ext)"
  proof (intro impI, elim conjE)
    assume h: "url_parts_ok scheme host dir (stem @ ''.'' @ ext) rest" "stem \<noteq> []" "ext \<noteq> []"
      "CHR ''.'' \<notin> set ext"
    show "generate_r2_key slug (url_text scheme host dir (stem @ ''.'' @ ext) rest)
            = Inr (slug @ ''.'' @ py_lower ext)"
      using url_suffix_lower_ext [OF h] by (simp add: generate_r2_key_def)
  qed
  have c: "url_parts_ok scheme host dir name rest \<and> name \<noteq> [] \<and> CHR ''.'' \<notin> set name
      \<longrightarrow> generate_r2_key slug (url_text scheme host dir name rest) = Inr (slug @ ''.png'')"
  proof (intro impI, elim conjE)
    assume h: "url_parts_ok scheme host dir name rest" "name \<noteq> []" "CHR ''.'' \<notin> set name"
    show "generate_r2_key slug (url_text scheme host dir name rest) = Inr (slug @ ''.png'')"
      using url_suffix_lower_plain [OF h] by (simp add: generate_r2_key_def)
  qed
  have d1: "generate_r2_key ''unikraft'' ''https://x.org/logo.SVG'' = Inr ''unikraft.svg''"
    by code_simp
  have d2: "generate_r2_key ''jitsi'' ''https://x.org/logo'' = Inr ''jitsi.png''"
    by code_simp
  have e: "py_or (doc_get d ''image_url'') (doc_get d ''logoUrl'') = Str url \<and> url \<noteq> []
        \<and> truthy (doc_get d ''image_slug'')
        \<and> generate_r2_key (py_str (doc_get d ''image_slug'')) url = Inr key
        \<and> get_content_type url = Inr ctype \<and> fetch outc = Fetched body \<and> put_ok outc
      \<longrightarrow> w_calls (snd (process_organization env outc w d False)) =
            w_calls w @ [CDownload url (local_path key), CPut key ctype, CUpdate (doc_get d ''canonical_id'')]"
    by (simp add: process_organization_live)
  have f: "CHR ''/'' \<notin> set key \<and> key \<noteq> [] \<and> key \<noteq> ''.'' \<longrightarrow> local_path key = ''logos/'' @ key"
    using local_path_plain by blast
  show ?thesis
    using a b c d1 d2 e f by (simp only: simp_thms)
qed

theorem storage_key_derivation_witness:
  "url_suffix_lower ''https://x.org/logo.SVG'' = Inr ''.svg''
   \<and> get_extension_from_url ''https://x.org/logo.SVG'' = Inr ''.svg''
   \<and> url_parts_ok ''https'' ''cdn.x.org'' ''/a.b'' ''logo.SVG'' ''?v=1.2#top''
   \<and> generate_r2_key ''unikraft'' ''https://cdn.x.org/a.b/logo.SVG?v=1.2#top'' = Inr ''unikraft.svg''
   \<and> url_parts_ok ''https'' ''cdn.x.org'' ''/a.b'' ''logo'' ''#top''
   \<and> generate_r2_key ''unikraft'' ''https://cdn.x.org/a.b/logo#top'' = Inr ''unikraft.png''
   \<and> (py_or (doc_get sample_org ''image_url'') (doc_get sample_org ''logoUrl'') = Str ''https://host/logo.png''
      \<and> truthy (doc_get sample_org ''image_slug'')
      \<and> generate_r2_key (py_str (doc_get sample_org ''image_slug'')) ''https://host/logo.png'' = Inr ''unikraft.png''
      \<and> get_content_type ''https://host/logo.png'' = Inr ''image/png''
      \<and> fetch all_ok = Fetched ''PNG'' \<and> put_ok all_ok)
   \<and> w_calls (snd (process_organization sample_env all_ok sample_world sample_org False)) =
        [CDownload ''https://host/logo.png'' ''logos/unikraft.png'',
         CPut ''unikraft.png'' ''image/png'',
         CUpdate (Str ''gsoc-unikraft-2024'')]
   \<and> local_path ''unikraft.png'' = ''logos/unikraft.png''"
proof -
  have s: "url_suffix_lower ''https://x.org/logo.SVG'' = Inr ''.svg''" by code_simp
  have p1: "url_parts_ok ''https'' ''cdn.x.org'' ''/a.b'' (''logo'' @ ''.'' @ ''SVG'') ''?v=1.2#top''"
    by code_simp
  have p2: "url_parts_ok ''https'' ''cdn.x.org'' ''/a.b'' ''logo'' ''#top''"
    by code_simp
  have h: "py_or (doc_get sample_org ''image_url'') (doc_get sample_org ''logoUrl'') = Str ''https://host/logo.png''"
    "truthy (doc_get sample_org ''image_slug'')" "fetch all_ok = Fetched ''PNG''" "put_ok all_ok"
    by (simp_all add: sample_org_def all_ok_def doc_get_def py_or_def)
  have k: "generate_r2_key (py_str (doc_get sample_org ''image_slug'')) ''https://host/logo.png'' = Inr ''unikraft.png''"
    by code_simp
  have t: "get_content_type ''https://host/logo.png'' = Inr ''image/png''"
    by code_simp
  have l: "py_lower ''SVG'' = ''svg''" by code_simp
  note T = storage_key_derivation
             [where url = "''https://x.org/logo.SVG''" and e = "''.svg''" and slug = "''unikraft''"
                and scheme = "''https''" and host = "''cdn.x.org''" and dir = "''/a.b''"
                and stem = "''logo''" and ext = "''SVG''" and rest = "''?v=1.2#top''"
                and name = "''logo''" and key = "''unikraft.png''"]
  note U = storage_key_derivation
             [where scheme = "''https''" and host = "''cdn.x.org''" and dir = "''/a.b''"
                and name = "''logo''" and rest = "''#top''" and slug = "''unikraft''"
                and d = sample_org and url = "''https://host/logo.png''" and key = "''unikraft.png''"
                and ctype = "''image/png''" and outc = all_ok and body = "''PNG''"
                and env = sample_env and w = sample_world]
  have r1: "get_extension_from_url ''https://x.org/logo.SVG'' = Inr ''.svg''"
    using T s by simp
  have r2: "generate_r2_key ''unikraft'' (url_text ''https'' ''cdn.x.org'' ''/a.b'' (''logo'' @ ''.'' @ ''SVG'') ''?v=1.2#top'')
              = Inr (''unikraft'' @ ''.'' @ py_lower ''SVG'')"
    using T p1 by simp
  have r3: "generate_r2_key ''unikraft'' (url_text ''https'' ''cdn.x.org'' ''/a.b'' ''logo'' ''#top'')
              = Inr (''unikraft'' @ ''.png'')"
    using U p2 by simp
  have r4: "w_calls (snd (process_organization sample_env all_ok sample_world sample_org False)) =
        w_calls sample_world @ [CDownload ''https://host/logo.png'' (local_path ''unikraft.png''),
           CPut ''unikraft.png'' ''image/png'', CUpdate (doc_get sample_org ''canonical_id'')]"
    using U h k t by simp
  have r5: "local_path ''unikraft.png'' = ''logos/'' @ ''unikraft.png''"
    using T by simp
  have e: "w_calls sample_world = []" "doc_get sample_org ''canonical_id'' = Str ''gsoc-unikraft-2024''"
    by (simp_all add: sample_world_def sample_org_def doc_get_def)
  show ?thesis
    using s r1 p1 p2 r2 r3 h k t r4 r5 l e by (simp add: url_text_def)
qed

text \<open>
  C9, as stated. The claim speaks of every source URL, but for a URL that \<open>urlparse\<close>
  refuses \<open>get_content_type\<close> raises \<open>ValueError\<close> and derives no content type.
\<close>

theorem no_content_type_for_refused_url:
  "get_content_type ''https://[::1/logo.png'' = Inl ValueError"
  by code_simp

text \<open>
  C9, amended. For every source URL that \<open>urlparse\<close> accepts, the content type is a
  function of the lowercased suffix of its path alone, given by the table of six entries;
  every other suffix, and no suffix, gives \<open>image/png\<close>.
\<close>

theorem content_type_table:
  "(url_suffix_lower url = Inr e \<longrightarrow>
      get_content_type url =
        Inr (if e = ''.png'' then ''image/png''
             else if e = ''.jpg'' then ''image/jpeg''
             else if e = ''.jpeg'' then ''image/jpeg''
             else if e = ''.gif'' then ''image/gif''
             else if e = ''.svg'' then ''image/svg+xml''
             else if e = ''.webp'' then ''image/webp''
             else ''image/png''))
   \<and> get_content_type ''https://x.org/photo.JPEG'' = Inr ''image/jpeg''
   \<and> get_content_type ''https://x.org/photo.webp'' = Inr ''image/webp''
   \<and> get_content_type ''https://x.org/photo.bmp'' = Inr ''image/png''
   \<and> get_content_type ''https://x.org/photo'' = Inr ''image/png''"
proof -
  have a: "get_content_type ''https://x.org/photo.JPEG'' = Inr ''image/jpeg''" by code_simp
  have b: "get_content_type ''https://x.org/photo.webp'' = Inr ''image/webp''" by code_simp
  have c: "get_content_type ''https://x.org/photo.bmp'' = Inr ''image/png''" by code_simp
  have d: "get_content_type ''https://x.org/photo'' = Inr ''image/png''" by code_simp
  show ?thesis using a b c d by (simp add: get_content_type_def mapping_def)
qed

theorem content_type_table_witness:
  "url_suffix_lower ''https://x.org/pic.GIF?size=2'' = Inr ''.gif''
   \<and> get_content_type ''https://x.org/pic.GIF?size=2'' = Inr ''image/gif''"
proof -
  have s: "url_suffix_lower ''https://x.org/pic.GIF?size=2'' = Inr ''.gif''" by code_simp
  from content_type_table [of "''https://x.org/pic.GIF?size=2''" "''.gif''"] s
  show ?thesis by simp
qed

text \<open>
  C10, as stated. The path of \<open>https://[::1/logo.png\<close> ends in the recognized extension
  \<open>.png\<close>, yet neither a key nor a content type is derived for it: both functions raise.
\<close>

theorem no_key_and_type_for_refused_url:
  "py_lower (name_suffix (path_name ''/logo.png'')) = ''.png''
   \<and> generate_r2_key ''oppia'' ''https://[::1/logo.png'' = Inl ValueError
   \<and> get_content_type ''https://[::1/logo.png'' = Inl ValueError
   \<and> get_extension_from_url ''https://[::1/logo.png'' = Inl ValueError"
  by code_simp

text \<open>
  C10, amended. For a source URL that \<open>urlparse\<close> accepts: when the lowercased suffix of its
  path is one of the six suffixes of the table or is empty, the content type is the table's
  entry for the extension the key ends with. For any other suffix, such as \<open>.bmp\<close>, the key
  keeps that suffix, the table has no entry for it and the content type is \<open>image/png\<close>.
\<close>

theorem key_extension_and_content_type:
  "(url_suffix_lower url = Inr e
      \<and> e \<in> set ['''', ''.png'', ''.jpg'', ''.jpeg'', ''.gif'', ''.svg'', ''.webp'']
      \<longrightarrow> (\<exists>k t. get_extension_from_url url = Inr k \<and> generate_r2_key slug url = Inr (slug @ k)
                 \<and> get_content_type url = Inr t \<and> map_of mapping k = Some t))
   \<and> (url_suffix_lower url = Inr e
      \<and> e \<notin> set ['''', ''.png'', ''.jpg'', ''.jpeg'', ''.gif'', ''.svg'', ''.webp'']
      \<longrightarrow> generate_r2_key slug url = Inr (slug @ e)
          \<and> get_extension_from_url url = Inr e
          \<and> get_content_type url = Inr ''image/png''
          \<and> map_of mapping e = None)"
  by (auto simp: generate_r2_key_def get_extension_from_url_def get_content_type_def mapping_def Let_def)

theorem key_extension_and_content_type_witness:
  "url_suffix_lower ''https://x.org/logo.SVG'' = Inr ''.svg''
   \<and> ''.svg'' \<in> set ['''', ''.png'', ''.jpg'', ''.jpeg'', ''.gif'', ''.svg'', ''.webp'']
   \<and> get_extension_from_url ''https://x.org/logo.SVG'' = Inr ''.svg''
   \<and> generate_r2_key ''unikraft'' ''https://x.org/logo.SVG'' = Inr ''unikraft.svg''
   \<and> get_content_type ''https://x.org/logo.SVG'' = Inr ''image/svg+xml''
   \<and> map_of mapping ''.svg'' = Some ''image/svg+xml''
   \<and> url_suffix_lower ''https://x.org/logo.bmp'' = Inr ''.bmp''
   \<and> ''.bmp'' \<notin> set ['''', ''.png'', ''.jpg'', ''.jpeg'', ''.gif'', ''.svg'', ''.webp'']
   \<and> generate_r2_key ''unikraft'' ''https://x.org/logo.bmp'' = Inr ''unikraft.bmp''
   \<and> get_content_type ''https://x.org/logo.bmp'' = Inr ''image/png''
   \<and> map_of mapping ''.bmp'' = None"
proof -
  have s: "url_suffix_lower ''https://x.org/logo.SVG'' = Inr ''.svg''" by code_simp
  have b: "url_suffix_lower ''https://x.org/logo.bmp'' = Inr ''.bmp''" by code_simp
  have m: "''.svg'' \<in> set ['''', ''.png'', ''.jpg'', ''.jpeg'', ''.gif'', ''.svg'', ''.webp'']" by simp
  have n: "''.bmp'' \<notin> set ['''', ''.png'', ''.jpg'', ''.jpeg'', ''.gif'', ''.svg'', ''.webp'']" by simp
  from key_extension_and_content_type [of "''https://x.org/logo.SVG''" "''.svg''" "''unikraft''"] s m
  obtain k t where kt: "get_extension_from_url ''https://x.org/logo.SVG'' = Inr k"
      "generate_r2_key ''unikraft'' ''https://x.org/logo.SVG'' = Inr (''unikraft'' @ k)"
      "get_content_type ''https://x.org/logo.SVG'' = Inr t" "map_of mapping k = Some t"
    by blast
  have k': "get_extension_from_url ''https://x.org/logo.SVG'' = Inr ''.svg''"
    using s by (simp add: get_extension_from_url_def)
  have ks: "k = ''.svg''" using kt(1) k' by simp
  have ts: "t = ''image/svg+xml''" using kt(4) ks by (simp add: mapping_def)
  from key_extension_and_content_type [of "''https://x.org/logo.bmp''" "''.bmp''" "''unikraft''"] b n
  have r: "generate_r2_key ''unikraft'' ''https://x.org/logo.bmp'' = Inr (''unikraft'' @ ''.bmp'')"
    "get_content_type ''https://x.org/logo.bmp'' = Inr ''image/png''"
    "map_of mapping ''.bmp'' = None"
    by blast+
  show ?thesis using s b m n kt ks ts r by simp
qed

section \<open>Selection in default mode\<close>

lemma default_query_selects:
  "matches d default_query =
     (map_of d ''logo_r2_url'' \<in> {None, Some Null, Some (Str '''')}
      \<and> (map_of d ''image_url'' \<notin> {None, Some (Str '''')} \<or> map_of d ''logoUrl'' \<notin> {None, Some (Str '''')})
      \<and> map_of d ''image_slug'' \<notin> {None, Some (Str '''')})"
  by (auto simp: default_query_def image_ops_def py_dict_def eq_match_def split: option.splits)

text \<open>
  C1. The operator display of the default query writes the key \<open>$ne\<close> twice, so only the
  comparison with the empty string is left in it. The query therefore selects a record
  whose \<open>image_url\<close> is present and null (with no \<open>logoUrl\<close>), and a record whose
  \<open>image_slug\<close> is present and null; each of them is then turned away by
  \<open>process_organization\<close>, which returns \<open>False\<close>.
\<close>

theorem default_query_selects_null_fields:
  "image_ops = [(''$exists'', OBool True), (''$ne'', OVal (Str ''''))]
   \<and> matches org_null_url default_query
   \<and> matches org_null_slug default_query
   \<and> find_docs [org_null_url, sample_org, org_null_slug, org_no_url] default_query
        = [org_null_url, sample_org, org_null_slug]
   \<and> process_organization sample_env all_ok sample_world org_null_url False = (Inr False, sample_world)
   \<and> process_organization sample_env all_ok sample_world org_null_slug False = (Inr False, sample_world)"
proof -
  have a: "image_ops = [(''$exists'', OBool True), (''$ne'', OVal (Str ''''))]"
    by (simp add: image_ops_def py_dict_def)
  have b: "matches org_null_url default_query"
    by (simp add: a default_query_def org_null_url_def py_dict_def eq_match_def)
  have c: "matches org_null_slug default_query"
    by (simp add: a default_query_def org_null_slug_def py_dict_def eq_match_def)
  have d: "matches sample_org default_query"
    by (simp add: a default_query_def sample_org_def py_dict_def eq_match_def)
  have e: "\<not> matches org_no_url default_query"
    by (simp add: a default_query_def org_no_url_def py_dict_def eq_match_def)
  have f: "process_organization sample_env all_ok sample_world org_null_url False = (Inr False, sample_world)"
    by (rule process_organization_skip) (simp add: org_null_url_def doc_get_def py_or_def)
  have g: "process_organization sample_env all_ok sample_world org_null_slug False = (Inr False, sample_world)"
    by (rule process_organization_skip) (simp add: org_null_slug_def doc_get_def py_or_def)
  show ?thesis using a b c d e f g by (simp add: find_docs_def)
qed

section \<open>Dry run\<close>

text \<open>
  C7. With \<open>DRY_RUN=true\<close> in the environment and a command line without \<open>--dry-run\<close>,
  the entry point passes \<open>dry_run=False\<close> to \<open>run\<close>, which reads the environment's
  option only when its argument is \<open>None\<close>: the record is uploaded and the database is
  written. Called with \<open>dry_run=None\<close>, \<open>run\<close> does take the option and stops after the
  download.
\<close>

theorem env_dry_run_ignored_by_cli:
  "DRY_RUN sample_env_dry
   \<and> a_dry_run no_flags = False
   \<and> (case main sample_env_dry every_ok sample_world no_flags of
         Done w success_count fail_count \<Rightarrow>
           w_calls w = [CDownload ''https://host/logo.png'' ''logos/unikraft.png'',
                        CPut ''unikraft.png'' ''image/png'',
                        CUpdate (Str ''gsoc-unikraft-2024'')]
           \<and> w_bucket w ''unikraft.png'' = Some (''PNG'', ''image/png'')
           \<and> w_db w = [sample_org @
                         [(''logo_local_filename'', Str ''unikraft.png''),
                          (''logo_r2_url'', Str ''https://acct.r2.cloudflarestorage.com/logos/unikraft.png''),
                          (''logo_uploaded_at'', Date ''2024-05-01 10:00:00'')]]
           \<and> success_count = 1 \<and> fail_count = 0
       | _ \<Rightarrow> False)
   \<and> (case run sample_env_dry every_ok sample_world None None None of
         Done w success_count fail_count \<Rightarrow>
           w_calls w = [CDownload ''https://host/logo.png'' ''logos/unikraft.png'']
           \<and> w_bucket w ''unikraft.png'' = None
           \<and> w_db w = [sample_org]
           \<and> success_count = 1 \<and> fail_count = 0
       | _ \<Rightarrow> False)"
  by code_simp

text \<open>
  C4, as stated. The claim reports every record processed in dry-run mode as a success, but
  a dry-run record whose download fails is returned as \<open>False\<close>: no file is left and the
  failure counter is 1.
\<close>

theorem dry_run_failed_download_is_failure:
  "fst (process_organization sample_env fetch_fails sample_world sample_org True) = Inr False
   \<and> w_files (snd (process_organization sample_env fetch_fails sample_world sample_org True))
        ''logos/unikraft.png'' = None
   \<and> snd (run_loop sample_env every_fetch_fails True 1 [sample_org] (sample_world, 0, 0)) = (0, 1)"
  by code_simp

text \<open>
  C4, amended. In dry-run mode a record never changes the bucket or the collection, and the
  only call it can add is a download; the same holds for the bucket and the collection
  over a whole batch. Selection is the same as without the flag: \<open>run\<close> goes through the
  records \<open>select_orgs\<close> returns. A record with a source URL that \<open>urlparse\<close> accepts and an
  image slug is still downloaded; when the download succeeds the record is reported as
  \<open>True\<close> with the downloaded file left at its local path, and when it fails the record is
  reported as \<open>False\<close>.
\<close>

theorem dry_run_downloads_only:
  "w_bucket (snd (process_organization env outc w d True)) = w_bucket w
   \<and> w_db (snd (process_organization env outc w d True)) = w_db w
   \<and> (w_calls (snd (process_organization env outc w d True)) = w_calls w
      \<or> (\<exists>u p. w_calls (snd (process_organization env outc w d True)) = w_calls w @ [CDownload u p]))
   \<and> w_bucket (fst (run_loop env exts True idx orgs (w, s, f))) = w_bucket w
   \<and> w_db (fst (run_loop env exts True idx orgs (w, s, f))) = w_db w
   \<and> (validate_config env = [] \<and> select_orgs (w_db w) test_org org_slugs \<noteq> []
      \<longrightarrow> run env exts w test_org org_slugs (Some True) =
            (case run_loop env exts True 1 (select_orgs (w_db w) test_org org_slugs) (w, 0, 0) of
               (w', success_count, fail_count) \<Rightarrow> Done w' success_count fail_count))
   \<and> (py_or (doc_get d ''image_url'') (doc_get d ''logoUrl'') = Str url \<and> url \<noteq> []
        \<and> truthy (doc_get d ''image_slug'')
        \<and> generate_r2_key (py_str (doc_get d ''image_slug'')) url = Inr key
      \<longrightarrow> w_calls (snd (process_organization env outc w d True)) = w_calls w @ [CDownload url (local_path key)]
          \<and> (fetch outc = Fetched body \<longrightarrow>
                process_organization env outc w d True =
                  (Inr True,
                   w\<lparr>w_calls := w_calls w @ [CDownload url (local_path key)],
                     w_files := (w_files w)(local_path key \<mapsto> body)\<rparr>))
          \<and> (fetch outc = FetchFailed part \<longrightarrow>
                fst (process_organization env outc w d True) = Inr False))"
proof -
  have a: "w_calls (snd (process_organization env outc w d True)) = w_calls w
      \<or> (\<exists>u p. w_calls (snd (process_organization env outc w d True)) = w_calls w @ [CDownload u p])"
    by (rule process_organization_dry_frame(3))
  have b: "validate_config env = [] \<and> select_orgs (w_db w) test_org org_slugs \<noteq> []
      \<longrightarrow> run env exts w test_org org_slugs (Some True) =
            (case run_loop env exts True 1 (select_orgs (w_db w) test_org org_slugs) (w, 0, 0) of
               (w', success_count, fail_count) \<Rightarrow> Done w' success_count fail_count)"
    by (simp add: run_def Let_def)
  have c: "py_or (doc_get d ''image_url'') (doc_get d ''logoUrl'') = Str url \<and> url \<noteq> []
        \<and> truthy (doc_get d ''image_slug'')
        \<and> generate_r2_key (py_str (doc_get d ''image_slug'')) url = Inr key
      \<longrightarrow> w_calls (snd (process_organization env outc w d True)) = w_calls w @ [CDownload url (local_path key)]
          \<and> (fetch outc = Fetched body \<longrightarrow>
                process_organization env outc w d True =
                  (Inr True,
                   w\<lparr>w_calls := w_calls w @ [CDownload url (local_path key)],
                     w_files := (w_files w)(local_path key \<mapsto> body)\<rparr>))
          \<and> (fetch outc = FetchFailed part \<longrightarrow>
                fst (process_organization env outc w d True) = Inr False)"
    by (simp add: process_organization_dry download_logo_calls download_logo_fetched download_logo_failed)
  show ?thesis
    using a b c by (simp only: process_organization_dry_frame(1,2) run_loop_dry_frame simp_thms)
qed

theorem dry_run_downloads_only_witness:
  "(validate_config sample_env = [] \<and> select_orgs (w_db sample_world) None None = [sample_org])
   \<and> (py_or (doc_get sample_org ''image_url'') (doc_get sample_org ''logoUrl'') = Str ''https://host/logo.png''
      \<and> truthy (doc_get sample_org ''image_slug'')
      \<and> generate_r2_key (py_str (doc_get sample_org ''image_slug'')) ''https://host/logo.png'' = Inr ''unikraft.png''
      \<and> fetch all_ok = Fetched ''PNG'' \<and> fetch fetch_fails = FetchFailed None)
   \<and> run sample_env every_ok sample_world None None (Some True) =
        (case run_loop sample_env every_ok True 1 [sample_org] (sample_world, 0, 0) of
           (w', success_count, fail_count) \<Rightarrow> Done w' success_count fail_count)
   \<and> fst (process_organization sample_env all_ok sample_world sample_org True) = Inr True
   \<and> w_calls (snd (process_organization sample_env all_ok sample_world sample_org True))
        = [CDownload ''https://host/logo.png'' ''logos/unikraft.png'']
   \<and> w_files (snd (process_organization sample_env all_ok sample_world sample_org True)) ''logos/unikraft.png''
        = Some ''PNG''
   \<and> w_bucket (snd (process_organization sample_env all_ok sample_world sample_org True)) ''unikraft.png'' = None
   \<and> w_db (snd (process_organization sample_env all_ok sample_world sample_org True)) = [sample_org]
   \<and> fst (process_organization sample_env fetch_fails sample_world sample_org True) = Inr False"
proof -
  have v: "validate_config sample_env = []" by code_simp
  have q: "select_orgs (w_db sample_world) None None = [sample_org]" by code_simp
  have h: "py_or (doc_get sample_org ''image_url'') (doc_get sample_org ''logoUrl'') = Str ''https://host/logo.png''"
    "truthy (doc_get sample_org ''image_slug'')" "fetch all_ok = Fetched ''PNG''"
    "fetch fetch_fails = FetchFailed None"
    by (simp_all add: sample_org_def all_ok_def fetch_fails_def doc_get_def py_or_def)
  have k: "generate_r2_key (py_str (doc_get sample_org ''image_slug'')) ''https://host/logo.png'' = Inr ''unikraft.png''"
    by code_simp
  have l: "local_path ''unikraft.png'' = ''logos/unikraft.png''"
    by code_simp
  have e: "w_calls sample_world = []" "w_bucket sample_world ''unikraft.png'' = None"
    "w_db sample_world = [sample_org]"
    by (simp_all add: sample_world_def)
  note T = dry_run_downloads_only
             [where env = sample_env and outc = all_ok and w = sample_world and d = sample_org
                and exts = every_ok and test_org = None and org_slugs = None
                and url = "''https://host/logo.png''" and key = "''unikraft.png''" and body = "''PNG''"]
  note U = dry_run_downloads_only
             [where env = sample_env and outc = fetch_fails and w = sample_world and d = sample_org
                and url = "''https://host/logo.png''" and key = "''unikraft.png''" and part = None]
  have r0: "run sample_env every_ok sample_world None None (Some True) =
        (case run_loop sample_env every_ok True 1 (select_orgs (w_db sample_world) None None) (sample_world, 0, 0) of
           (w', success_count, fail_count) \<Rightarrow> Done w' success_count fail_count)"
    using T v q by simp
  have r1: "process_organization sample_env all_ok sample_world sample_org True =
            (Inr True,
             sample_world\<lparr>w_calls := w_calls sample_world @ [CDownload ''https://host/logo.png'' (local_path ''unikraft.png'')],
               w_files := (w_files sample_world)(local_path ''unikraft.png'' \<mapsto> ''PNG'')\<rparr>)"
    using T h k by simp
  have r2: "fst (process_organization sample_env fetch_fails sample_world sample_org True) = Inr False"
    using U h k by simp
  show ?thesis using v q h k r2 by (simp add: r0 r1 l e)
qed

section \<open>The batch\<close>

text \<open>
  C5. The loop handles every record of the batch, whatever happens to the ones before:
  running it over \<open>xs @ ys\<close> is running it over \<open>ys\<close> from where \<open>xs\<close> ended, the two
  counters grow by the number of records together, and a record that returns \<open>False\<close> or
  raises adds one to the failure counter before the loop goes on with the rest. In the
  sample batch the first record raises, the second lacks its URL, and the third is still
  published.
\<close>

theorem batch_survives_record_failure:
  "run_loop env exts dry idx (xs @ ys) st =
     run_loop env exts dry (idx + length xs) ys (run_loop env exts dry idx xs st)
   \<and> fst (snd (run_loop env exts dry idx orgs (w, s, f))) + snd (snd (run_loop env exts dry idx orgs (w, s, f)))
       = s + f + length orgs
   \<and> run_loop env exts dry idx (org # orgs) (w, s, f) =
       run_loop env exts dry (Suc idx) orgs
         (snd (process_organization env (exts idx) w org dry),
          (if fst (process_organization env (exts idx) w org dry) = Inr True then Suc s else s),
          (if fst (process_organization env (exts idx) w org dry) = Inr True then f else Suc f))
   \<and> fst (process_organization sample_env all_ok sample_world org_date_url False) = Inl AttributeError
   \<and> snd (run_loop sample_env every_ok False 1 [org_date_url, org_no_url, sample_org] (sample_world, 0, 0)) = (1, 2)
   \<and> w_bucket (fst (run_loop sample_env every_ok False 1 [org_date_url, org_no_url, sample_org] (sample_world, 0, 0)))
        ''unikraft.png'' = Some (''PNG'', ''image/png'')"
proof -
  have a: "fst (process_organization sample_env all_ok sample_world org_date_url False) = Inl AttributeError"
    by code_simp
  have b: "snd (run_loop sample_env every_ok False 1 [org_date_url, org_no_url, sample_org] (sample_world, 0, 0)) = (1, 2)"
    by code_simp
  have c: "w_bucket (fst (run_loop sample_env every_ok False 1 [org_date_url, org_no_url, sample_org] (sample_world, 0, 0)))
        ''unikraft.png'' = Some (''PNG'', ''image/png'')"
    by code_simp
  show ?thesis
    using a b c run_loop_append [of env exts dry idx xs ys st] run_loop_counts [of env exts dry idx orgs w s f]
      run_loop_step [of env exts dry idx org orgs w s f]
    by (simp only: simp_thms)
qed

section \<open>Failures of one record\<close>

text \<open>
  C3, as stated, at the example it gives. The record carries an identifier that matches no
  document of the collection. The upload succeeds, \<open>update_one\<close> matches nothing and raises
  nothing, the collection is unchanged, and the record is reported as \<open>True\<close>: the
  success counter is 1 and the failure counter is 0.
\<close>

theorem unmatched_update_reported_as_success:
  "find_docs (w_db sample_world) (QField ''canonical_id'' (FEq (Str ''no-such-id''))) = []
   \<and> doc_get org_wrong_id ''canonical_id'' = Str ''no-such-id''
   \<and> fst (process_organization sample_env all_ok sample_world org_wrong_id False) = Inr True
   \<and> w_bucket (snd (process_organization sample_env all_ok sample_world org_wrong_id False)) ''unikraft.png''
        = Some (''PNG'', ''image/png'')
   \<and> w_db (snd (process_organization sample_env all_ok sample_world org_wrong_id False)) = w_db sample_world
   \<and> snd (run_loop sample_env every_ok False 1 [org_wrong_id] (sample_world, 0, 0)) = (1, 0)"
  by code_simp

text \<open>
  C3, amended. When the download and the upload succeed and the database update raises, the
  record is reported as \<open>False\<close>, the collection is unchanged, the local file and the
  uploaded object are in place, and the loop adds one to the failure counter and goes on
  with the rest of the batch. (The key and the content type are the ones derived from the
  record's URL, which \<open>urlparse\<close> has accepted when an upload takes place.)
\<close>

theorem update_error_is_record_failure:
  assumes "py_or (doc_get d ''image_url'') (doc_get d ''logoUrl'') = Str url" and "url \<noteq> []"
    and "truthy (doc_get d ''image_slug'')"
    and "generate_r2_key (py_str (doc_get d ''image_slug'')) url = Inr key"
    and "get_content_type url = Inr ctype"
    and "fetch (exts idx) = Fetched body" and "put_ok (exts idx)" and "\<not> update_ok (exts idx)"
  shows "fst (process_organization env (exts idx) w d False) = Inr False
     \<and> w_db (snd (process_organization env (exts idx) w d False)) = w_db w
     \<and> w_files (snd (process_organization env (exts idx) w d False)) (local_path key) = Some body
     \<and> w_bucket (snd (process_organization env (exts idx) w d False)) key = Some (body, ctype)
     \<and> run_loop env exts False idx (d # rest) (w, s, f) =
          run_loop env exts False (Suc idx) rest
            (snd (process_organization env (exts idx) w d False), s, Suc f)"
proof -
  have p: "process_organization env (exts idx) w d False =
             (Inr False,
              w\<lparr>w_calls := w_calls w @
                   [CDownload url (local_path key), CPut key ctype, CUpdate (doc_get d ''canonical_id'')],
                w_files := (w_files w)(local_path key \<mapsto> body),
                w_bucket := (w_bucket w)(key \<mapsto> (body, ctype)),
                w_db := w_db w\<rparr>)"
    using assms(8) process_organization_live [OF assms(1,2,3,4,5,6,7), of env w] by simp
  show ?thesis
    by (simp only: run_loop_step) (simp add: p)
qed

theorem update_error_is_record_failure_witness:
  "(py_or (doc_get sample_org ''image_url'') (doc_get sample_org ''logoUrl'') = Str ''https://host/logo.png''
    \<and> ''https://host/logo.png'' \<noteq> [] \<and> truthy (doc_get sample_org ''image_slug'')
    \<and> generate_r2_key (py_str (doc_get sample_org ''image_slug'')) ''https://host/logo.png'' = Inr ''unikraft.png''
    \<and> get_content_type ''https://host/logo.png'' = Inr ''image/png''
    \<and> fetch (every_update_raises 1) = Fetched ''PNG'' \<and> put_ok (every_update_raises 1)
    \<and> \<not> update_ok (every_update_raises 1))
   \<and> fst (process_organization sample_env (every_update_raises 1) sample_world sample_org False) = Inr False
   \<and> w_db (snd (process_organization sample_env (every_update_raises 1) sample_world sample_org False))
        = [sample_org]
   \<and> w_files (snd (process_organization sample_env (every_update_raises 1) sample_world sample_org False))
        ''logos/unikraft.png'' = Some ''PNG''
   \<and> w_bucket (snd (process_organization sample_env (every_update_raises 1) sample_world sample_org False))
        ''unikraft.png'' = Some (''PNG'', ''image/png'')
   \<and> run_loop sample_env every_update_raises False 1 [sample_org] (sample_world, 0, 0) =
        (snd (process_organization sample_env (every_update_raises 1) sample_world sample_org False), 0, 1)"
proof -
  have h: "py_or (doc_get sample_org ''image_url'') (doc_get sample_org ''logoUrl'') = Str ''https://host/logo.png''"
    "''https://host/logo.png'' \<noteq> []" "truthy (doc_get sample_org ''image_slug'')"
    by (simp_all add: sample_org_def doc_get_def py_or_def)
  have k: "generate_r2_key (py_str (doc_get sample_org ''image_slug'')) ''https://host/logo.png'' = Inr ''unikraft.png''"
    by code_simp
  have t: "get_content_type ''https://host/logo.png'' = Inr ''image/png''"
    by code_simp
  have o: "fetch (every_update_raises 1) = Fetched ''PNG''" "put_ok (every_update_raises 1)"
    "\<not> update_ok (every_update_raises 1)"
    by (simp_all add: every_update_raises_def update_raises_def)
  have l: "local_path ''unikraft.png'' = ''logos/unikraft.png''"
    by code_simp
  have e: "w_db sample_world = [sample_org]"
    by (simp add: sample_world_def)
  from update_error_is_record_failure
         [where d = sample_org and exts = every_update_raises and idx = 1 and env = sample_env
            and w = sample_world and rest = "[]" and s = 0 and f = 0, OF h k t o]
  show ?thesis using h k t o by (simp add: l e)
qed

text \<open>
  C6, as stated. A record without a source URL, and a record without an image slug, each
  leave the failure counter at 1; the loop keeps a success and a failure counter only.
\<close>

theorem missing_field_tallied_as_failure:
  "snd (run_loop sample_env every_ok False 1 [org_no_url] (sample_world, 0, 0)) = (0, 1)
   \<and> snd (run_loop sample_env every_ok False 1 [org_no_slug] (sample_world, 0, 0)) = (0, 1)"
  by code_simp

text \<open>
  C6, amended. A record whose source URL (\<open>image_url\<close>, else \<open>logoUrl\<close>) or image slug is
  absent, null or empty is returned as \<open>False\<close>, and the loop adds one to the failure
  counter and leaves the success counter as it is.
\<close>

theorem missing_field_is_record_failure:
  assumes "\<not> truthy (py_or (doc_get d ''image_url'') (doc_get d ''logoUrl''))
           \<or> \<not> truthy (doc_get d ''image_slug'')"
  shows "process_organization env (exts idx) w d dry = (Inr False, w)
     \<and> run_loop env exts dry idx (d # rest) (w, s, f) = run_loop env exts dry (Suc idx) rest (w, s, Suc f)"
  by (simp only: run_loop_step process_organization_skip [OF assms]) simp

theorem missing_field_is_record_failure_witness:
  "\<not> truthy (py_or (doc_get org_no_url ''image_url'') (doc_get org_no_url ''logoUrl''))
   \<and> process_organization sample_env (every_ok 1) sample_world org_no_url False = (Inr False, sample_world)
   \<and> run_loop sample_env every_ok False 1 [org_no_url] (sample_world, 0, 0) = (sample_world, 0, 1)
   \<and> \<not> truthy (doc_get org_no_slug ''image_slug'')
   \<and> run_loop sample_env every_ok False 1 [org_no_slug] (sample_world, 0, 0) = (sample_world, 0, 1)"
proof -
  have n: "\<not> truthy (py_or (doc_get org_no_url ''image_url'') (doc_get org_no_url ''logoUrl''))"
    by (simp add: org_no_url_def doc_get_def py_or_def)
  have m: "\<not> truthy (doc_get org_no_slug ''image_slug'')"
    by (simp add: org_no_slug_def doc_get_def)
  have h: "\<not> truthy (py_or (doc_get org_no_url ''image_url'') (doc_get org_no_url ''logoUrl''))
    \<or> \<not> truthy (doc_get org_no_url ''image_slug'')"
    using n by simp
  have g: "\<not> truthy (py_or (doc_get org_no_slug ''image_url'') (doc_get org_no_slug ''logoUrl''))
    \<or> \<not> truthy (doc_get org_no_slug ''image_slug'')"
    using m by simp
  from missing_field_is_record_failure
         [where d = org_no_url and exts = every_ok and idx = 1 and env = sample_env
            and w = sample_world and dry = False and rest = "[]" and s = 0 and f = 0, OF h]
       missing_field_is_record_failure
         [where d = org_no_slug and exts = every_ok and idx = 1 and env = sample_env
            and w = sample_world and dry = False and rest = "[]" and s = 0 and f = 0, OF g]
  show ?thesis using n m by simp
qed

section \<open>The download-only script and the force flag\<close>



end
